theory Spec2Isabelle
  imports Complex_Main
begin

section \<open>Exceptions\<close>

text \<open>
  The source signals every failure with a Python exception and tells failures apart by
  the class named in an \<open>except\<close> clause and by the text of \<open>str(e)\<close>. An exception
  value is therefore a class together with its description. The classes are the ones the
  three \<open>except\<close> clauses of the core can tell apart:
  \<^item> \<open>PlainException\<close> is \<open>Exception(...)\<close> itself, what every \<open>raise\<close> of the source raises;
  \<^item> \<open>KeyError\<close>, \<open>TypeError\<close>, \<open>AttributeError\<close>, \<open>AssertionError\<close>, \<open>OSError\<close> are
    raised by the interpreter;
  \<^item> \<open>RequestException\<close> is \<open>requests.exceptions.RequestException\<close> or a subclass;
  \<^item> \<open>JSONDecodeError\<close> is \<open>json.JSONDecodeError\<close>;
  \<^item> \<open>RequestsJSONDecodeError\<close> is \<open>requests.exceptions.JSONDecodeError\<close>, which newer
    versions of the HTTP library raise from \<open>response.json()\<close> and which is a subclass of
    both of the previous two;
  \<^item> \<open>KeyboardInterrupt\<close> and \<open>SystemExit\<close> derive from \<open>BaseException\<close> only.
\<close>

datatype exc_class =
    PlainException | KeyError | TypeError | AttributeError | AssertionError | OSError
  | RequestException | JSONDecodeError | RequestsJSONDecodeError
  | KeyboardInterrupt | SystemExit

datatype exn = Exn (cls: exc_class) (description: string)

fun isinstance_Exception :: "exc_class \<Rightarrow> bool" where
  "isinstance_Exception KeyboardInterrupt = False"
| "isinstance_Exception SystemExit = False"
| "isinstance_Exception _ = True"

fun isinstance_RequestException :: "exc_class \<Rightarrow> bool" where
  "isinstance_RequestException RequestException = True"
| "isinstance_RequestException RequestsJSONDecodeError = True"
| "isinstance_RequestException _ = False"

fun isinstance_JSONDecodeError :: "exc_class \<Rightarrow> bool" where
  "isinstance_JSONDecodeError JSONDecodeError = True"
| "isinstance_JSONDecodeError RequestsJSONDecodeError = True"
| "isinstance_JSONDecodeError _ = False"

section \<open>Parsed JSON values and the Python operations the core applies to them\<close>

datatype json =
    JNull | JBool bool | JInt int | JFloat rat | JStr string
  | JArr "json list" | JObj "(string \<times> json) list"

text \<open>Truthiness (\<open>if x\<close>, \<open>not x\<close>).\<close>

fun truthy :: "json \<Rightarrow> bool" where
  "truthy JNull = False"
| "truthy (JBool b) = b"
| "truthy (JInt i) = (i \<noteq> 0)"
| "truthy (JFloat q) = (q \<noteq> 0)"
| "truthy (JStr s) = (s \<noteq> [])"
| "truthy (JArr xs) = (xs \<noteq> [])"
| "truthy (JObj kvs) = (kvs \<noteq> [])"

fun starts_with :: "'a list \<Rightarrow> 'a list \<Rightarrow> bool" where
  "starts_with [] ys = True"
| "starts_with (x # xs) [] = False"
| "starts_with (x # xs) (y # ys) = (x = y \<and> starts_with xs ys)"

fun substring_of :: "'a list \<Rightarrow> 'a list \<Rightarrow> bool" where
  "substring_of xs [] = (xs = [])"
| "substring_of xs (y # ys) = (starts_with xs (y # ys) \<or> substring_of xs ys)"

text \<open>
  The texts of the errors that the interpreter raises, and the output of \<open>json.dumps\<close>,
  are produced outside the source. They are taken as parameters, in a record passed to
  the functions that need them.
\<close>

datatype runtime_error =
    MissingKey string
  | NotIterable json
  | BadSubscript json
  | NoAttribute json string

record pylib =
  json_dumps :: "json \<Rightarrow> string"
  error_text :: "runtime_error \<Rightarrow> string"

text \<open>\<open>key in x\<close>.\<close>

fun py_contains :: "pylib \<Rightarrow> string \<Rightarrow> json \<Rightarrow> exn + bool" where
  "py_contains L k (JObj kvs) = Inr (k \<in> set (map fst kvs))"
| "py_contains L k (JArr xs) = Inr (JStr k \<in> set xs)"
| "py_contains L k (JStr s) = Inr (substring_of k s)"
| "py_contains L k v = Inl (Exn TypeError (error_text L (NotIterable v)))"

text \<open>\<open>x[key]\<close> with a string key.\<close>

fun py_getitem :: "pylib \<Rightarrow> json \<Rightarrow> string \<Rightarrow> exn + json" where
  "py_getitem L (JObj kvs) k =
     (case map_of kvs k of
        None \<Rightarrow> Inl (Exn KeyError (error_text L (MissingKey k)))
      | Some v \<Rightarrow> Inr v)"
| "py_getitem L v k = Inl (Exn TypeError (error_text L (BadSubscript v)))"

text \<open>\<open>x.get(key, default)\<close>; only a dict has the method.\<close>

fun py_get :: "pylib \<Rightarrow> json \<Rightarrow> string \<Rightarrow> json \<Rightarrow> exn + json" where
  "py_get L (JObj kvs) k d = Inr (case map_of kvs k of None \<Rightarrow> d | Some v \<Rightarrow> v)"
| "py_get L v k d = Inl (Exn AttributeError (error_text L (NoAttribute v ''get'')))"

text \<open>\<open>str(n)\<close> for a non-negative integer.\<close>

definition digit_char :: "nat \<Rightarrow> char" where
  "digit_char d = ''0123456789'' ! d"

function str_nat :: "nat \<Rightarrow> string" where
  "str_nat n = (if n < 10 then [digit_char n] else str_nat (n div 10) @ [digit_char (n mod 10)])"
  by pat_completeness auto
termination
  by (relation "measure id") auto

declare str_nat.simps [simp del]

section \<open>The data model\<close>

record TestAccount =
  email :: string
  password :: string

record TestResult =
  test_id :: string
  name :: string
  status :: string
  message :: string
  duration :: real

record TestSession =
  accounts :: "string \<rightharpoonup> TestAccount"
  tokens :: "string \<rightharpoonup> json"
  base_url :: string
  results :: "TestResult list"
  start_time :: real

section \<open>The HTTP layer\<close>

text \<open>
  A request as it goes on the wire. The bearer header is kept as the token it carries,
  the JSON body as a parsed value.
\<close>

record request =
  http_method :: string
  url :: string
  headers :: "(string \<times> string) list"
  authorization :: "json option"
  payload :: "json option"
  timeout_s :: nat

text \<open>
  A response as the source reads it: \<open>status_code\<close>, \<open>reason\<close>, \<open>text\<close>, and what
  \<open>response.json()\<close> returns or raises.
\<close>

record http_response =
  status_code :: nat
  reason :: string
  body_text :: string
  json_outcome :: "exn + json"

datatype attempt_result = Responded http_response | TransportFailed string

text \<open>
  The HTTP session of the runner: its default headers, and the remote end. The endpoint
  answers an attempt from the whole history of attempts (the latest one last), which
  covers every deterministic server; \<open>wire\<close> is the history so far, one entry per
  attempt put on the wire. \<open>raise_on_status\<close> is the retry option of that name, which
  the source leaves at the library's default: whether a retryable status that is left
  when the retries are used up is raised or returned.
\<close>

record http_session =
  session_headers :: "(string \<times> string) list"
  raise_on_status :: bool
  endpoint :: "request list \<Rightarrow> attempt_result"
  wire :: "request list"

text \<open>The retry configuration of \<open>__init__\<close> (lines 92-97).\<close>

definition retry_total :: nat where
  "retry_total = 3"

definition status_forcelist :: "nat list" where
  "status_forcelist = [429, 500, 502, 503, 504]"

definition allowed_methods :: "string list" where
  "allowed_methods = [''HEAD'', ''GET'', ''POST'', ''OPTIONS'']"

definition attempt :: "request \<Rightarrow> http_session \<Rightarrow> attempt_result \<times> http_session" where
  "attempt q h = (endpoint h (wire h @ [q]), h\<lparr>wire := wire h @ [q]\<rparr>)"

definition is_retry :: "request \<Rightarrow> http_response \<Rightarrow> bool" where
  "is_retry q resp \<longleftrightarrow> http_method q \<in> set allowed_methods \<and> status_code resp \<in> set status_forcelist"

text \<open>
  Modelled from the spec: the retry loop of the mounted adapter. The loop itself is code
  of the HTTP library, outside the source; the source only configures it. Section 4.1:
  an attempt is repeated when the server returns a status of the fixed retryable set or
  the transport fails, up to a bounded number of retries; any other status is returned
  at once. The first argument is the number of retries left. With none left, a retryable
  status is raised as a \<open>RequestException\<close> or returned, as \<open>raise_on_status\<close> says, and
  a transport failure is raised. Backoff delays are not modelled.
\<close>

fun adapter_send :: "nat \<Rightarrow> request \<Rightarrow> http_session \<Rightarrow> (exn + http_response) \<times> http_session" where
  "adapter_send 0 q h =
     (case attempt q h of
        (Responded resp, h') \<Rightarrow>
          if is_retry q resp \<and> raise_on_status h
          then (Inl (Exn RequestException
                  (''too many '' @ str_nat (status_code resp) @ '' error responses'')), h')
          else (Inr resp, h')
      | (TransportFailed d, h') \<Rightarrow> (Inl (Exn RequestException d), h'))"
| "adapter_send (Suc n) q h =
     (case attempt q h of
        (Responded resp, h') \<Rightarrow>
          if is_retry q resp then adapter_send n q h' else (Inr resp, h')
      | (TransportFailed d, h') \<Rightarrow> adapter_send n q h')"

text \<open>
  \<open>http_session.post\<close> and \<open>http_session.get\<close>: the request carries the session's
  headers and, when the call passes one, the bearer header; it goes through the adapter.
\<close>

definition session_request ::
  "string \<Rightarrow> string \<Rightarrow> json option \<Rightarrow> json option \<Rightarrow> nat \<Rightarrow> http_session
     \<Rightarrow> (exn + http_response) \<times> http_session" where
  "session_request m u body auth t h =
     adapter_send retry_total
       \<lparr>http_method = m, url = u, headers = session_headers h,
        authorization = auth, payload = body, timeout_s = t\<rparr> h"

section \<open>The runner\<close>

text \<open>
  The report that \<open>generate_report\<close> writes.
\<close>

record report_entry =
  entry_test_id :: string
  entry_name :: string
  entry_status :: string
  entry_message :: string
  duration_ms :: real

record report =
  total_tests :: nat
  passed :: nat
  failed :: nat
  skipped :: nat
  success_rate :: real
  total_duration_ms :: real
  target_url :: string
  timestamp :: real
  report_results :: "report_entry list"

text \<open>
  The state of a run: the fields of \<open>EkkoTestRunner\<close>, and the parts of the environment
  that the core reads or writes: the wall clock that \<open>time.time()\<close> reads, whether
  opening the report file fails, and the report file's contents. Console output
  (\<open>log\<close>) is not part of the state.
\<close>

record EkkoTestRunner =
  is_production :: bool
  session :: TestSession
  http_session :: http_session
  clock :: real
  open_error :: "exn option"
  report_file :: "report option"

text \<open>
  A check body is any zero-argument method of the runner: it may change the runner and
  the environment, and it returns or raises.
\<close>

type_synonym check = "EkkoTestRunner \<Rightarrow> (exn + unit) \<times> EkkoTestRunner"

text \<open>\<open>base_url.rstrip('/')\<close>.\<close>

definition rstrip_slash :: "string \<Rightarrow> string" where
  "rstrip_slash s = rev (dropWhile (\<lambda>c. c = CHR ''/'') (rev s))"

definition fixed_accounts :: "(string \<times> TestAccount) list" where
  "fixed_accounts =
     [(''admin'', \<lparr>email = ''admin@ekko.earth'', password = ''Password123!''\<rparr>),
      (''london_manager'', \<lparr>email = ''london.manager@ekko.earth'', password = ''Password123!''\<rparr>),
      (''manchester_manager'', \<lparr>email = ''manchester.manager@ekko.earth'', password = ''Password123!''\<rparr>),
      (''westminster_staff'', \<lparr>email = ''westminster.staff@ekko.earth'', password = ''Password123!''\<rparr>),
      (''camden_staff'', \<lparr>email = ''camden.staff@ekko.earth'', password = ''Password123!''\<rparr>),
      (''citycentre_staff'', \<lparr>email = ''citycentre.staff@ekko.earth'', password = ''Password123!''\<rparr>)]"

text \<open>
  \<open>__init__\<close>. The environment is given by the last five arguments: the value of the
  bypass variable, the remote end, the time, whether the report file can be opened, and
  the library's default for \<open>raise_on_status\<close>.
\<close>

definition init :: "string \<Rightarrow> bool \<Rightarrow> string option \<Rightarrow> (request list \<Rightarrow> attempt_result) \<Rightarrow> real \<Rightarrow> exn option
    \<Rightarrow> bool \<Rightarrow> EkkoTestRunner" where
  "init url0 production bypass_secret ep now oerr ros =
     \<lparr>is_production = production,
      session = \<lparr>accounts = map_of fixed_accounts, tokens = Map.empty,
                 base_url = rstrip_slash url0, results = [], start_time = now\<rparr>,
      http_session =
        \<lparr>session_headers =
           [(''User-Agent'', ''Ekko-Test-Runner/1.0-Python''), (''Content-Type'', ''application/json'')]
           @ (if production then (case bypass_secret of
                              Some b \<Rightarrow> if b \<noteq> [] then [(''x-vercel-protection-bypass'', b)] else []
                            | None \<Rightarrow> [])
              else []),
         raise_on_status = ros, endpoint = ep, wire = []\<rparr>,
      clock = now, open_error = oerr, report_file = None\<rparr>"

subsection \<open>\<open>make_graphql_request\<close>\<close>

text \<open>
  The two \<open>except\<close> clauses of lines 158-164, in their order: a \<open>RequestException\<close> is
  re-raised as \<open>Exception("Network request failed: ...")\<close>, then a \<open>JSONDecodeError\<close> as
  \<open>Exception("Invalid JSON response: ...")\<close>; anything else passes through.
\<close>

definition graphql_except :: "exn \<Rightarrow> exn" where
  "graphql_except e =
     (if isinstance_RequestException (cls e)
      then Exn PlainException (''Network request failed: '' @ description e)
      else if isinstance_JSONDecodeError (cls e)
      then Exn PlainException (''Invalid JSON response: '' @ description e)
      else e)"

text \<open>The body of the \<open>try\<close>, lines 144-156, once \<open>post\<close> has returned or raised.\<close>

definition graphql_try :: "exn + http_response \<Rightarrow> exn + json" where
  "graphql_try posted =
     (case posted of
        Inl e \<Rightarrow> Inl e
      | Inr response \<Rightarrow>
          if status_code response \<noteq> 200
          then Inl (Exn PlainException
                 (''GraphQL request failed: '' @ str_nat (status_code response) @ '' '' @ reason response))
          else json_outcome response)"

definition graphql_payload :: "string \<Rightarrow> json option \<Rightarrow> json" where
  "graphql_payload query variables =
     JObj ((''query'', JStr query) #
           (case variables of
              None \<Rightarrow> []
            | Some v \<Rightarrow> if truthy v then [(''variables'', v)] else []))"

definition bearer :: "json option \<Rightarrow> json option" where
  "bearer token = (case token of None \<Rightarrow> None | Some t \<Rightarrow> if truthy t then Some t else None)"

definition make_graphql_request ::
  "string \<Rightarrow> json option \<Rightarrow> json option \<Rightarrow> EkkoTestRunner \<Rightarrow> (exn + json) \<times> EkkoTestRunner" where
  "make_graphql_request query variables token r =
     (case session_request ''POST'' (base_url (session r) @ ''/api/graphql'')
             (Some (graphql_payload query variables)) (bearer token) 30 (http_session r) of
        (posted, h') \<Rightarrow>
          (case graphql_try posted of
             Inl e \<Rightarrow> (Inl (graphql_except e), r\<lparr>http_session := h'\<rparr>)
           | Inr v \<Rightarrow> (Inr v, r\<lparr>http_session := h'\<rparr>)))"

subsection \<open>\<open>authenticate_user\<close>\<close>

definition login_mutation :: string where
  "login_mutation = ''mutation Login($input: AuthInput!) { login(input: $input) { token user { id email name } expiresAt } }''"

definition login_variables :: "TestAccount \<Rightarrow> json" where
  "login_variables account =
     JObj [(''input'', JObj [(''email'', JStr (email account)), (''password'', JStr (password account))])]"

text \<open>
  Lines 196-202: what is read from the login response. The result is the token, or the
  exception of the first step that raises.
\<close>

definition token_of_response :: "pylib \<Rightarrow> json \<Rightarrow> exn + json" where
  "token_of_response L response =
     (case py_contains L ''errors'' response of
        Inl e \<Rightarrow> Inl e
      | Inr True \<Rightarrow>
          (case py_getitem L response ''errors'' of
             Inl e \<Rightarrow> Inl e
           | Inr errs \<Rightarrow> Inl (Exn PlainException (''Authentication failed: '' @ json_dumps L errs)))
      | Inr False \<Rightarrow>
          (case py_get L response ''data'' (JObj []) of
             Inl e \<Rightarrow> Inl e
           | Inr d \<Rightarrow>
               (case py_get L d ''login'' (JObj []) of
                  Inl e \<Rightarrow> Inl e
                | Inr l \<Rightarrow>
                    (case py_get L l ''token'' JNull of
                       Inl e \<Rightarrow> Inl e
                     | Inr t \<Rightarrow>
                         if \<not> truthy t
                         then Inl (Exn PlainException ''Login failed: No token received'')
                         else
                           (case py_getitem L response ''data'' of
                              Inl e \<Rightarrow> Inl e
                            | Inr d' \<Rightarrow>
                                (case py_getitem L d' ''login'' of
                                   Inl e \<Rightarrow> Inl e
                                 | Inr l' \<Rightarrow> py_getitem L l' ''token''))))))"

definition store_token :: "string \<Rightarrow> json \<Rightarrow> EkkoTestRunner \<Rightarrow> EkkoTestRunner" where
  "store_token account_key token r =
     r\<lparr>session := (session r)\<lparr>tokens := (tokens (session r))(account_key \<mapsto> token)\<rparr>\<rparr>"

definition authenticate_user :: "pylib \<Rightarrow> string \<Rightarrow> EkkoTestRunner \<Rightarrow> (exn + json) \<times> EkkoTestRunner" where
  "authenticate_user L account_key r =
     (case tokens (session r) account_key of
        Some cached \<Rightarrow> (Inr cached, r)
      | None \<Rightarrow>
          (case accounts (session r) account_key of
             None \<Rightarrow> (Inl (Exn KeyError (error_text L (MissingKey account_key))), r)
           | Some account \<Rightarrow>
               (case make_graphql_request login_mutation (Some (login_variables account)) None r of
                  (Inl e, r1) \<Rightarrow> (Inl e, r1)
                | (Inr response, r1) \<Rightarrow>
                    (case token_of_response L response of
                       Inl e \<Rightarrow> (Inl e, r1)
                     | Inr token \<Rightarrow> (Inr token, store_token account_key token r1)))))"

subsection \<open>\<open>run_test\<close>\<close>

definition append_result :: "TestResult \<Rightarrow> EkkoTestRunner \<Rightarrow> EkkoTestRunner" where
  "append_result res r = r\<lparr>session := (session r)\<lparr>results := results (session r) @ [res]\<rparr>\<rparr>"

text \<open>
  Lines 207-233. \<open>except Exception\<close> catches the instances of \<open>Exception\<close>; any other
  signal leaves \<open>run_test\<close> and nothing is appended.
\<close>

definition run_test :: "string \<Rightarrow> string \<Rightarrow> check \<Rightarrow> EkkoTestRunner \<Rightarrow> (exn + unit) \<times> EkkoTestRunner" where
  "run_test tid nm test_function r =
     (let t0 = clock r in
      case test_function r of
        (Inr u, r1) \<Rightarrow>
          (Inr (), append_result
             \<lparr>test_id = tid, name = nm, status = ''PASS'',
              message = ''Test completed successfully'', duration = clock r1 - t0\<rparr> r1)
      | (Inl e, r1) \<Rightarrow>
          if isinstance_Exception (cls e)
          then (Inr (), append_result
                  \<lparr>test_id = tid, name = nm, status = ''FAIL'',
                   message = description e, duration = clock r1 - t0\<rparr> r1)
          else (Inl e, r1))"

text \<open>
  A sequence of \<open>run_test\<close> statements, as in the three phase methods: each runs after
  the one before it has returned; a signal that leaves one \<open>run_test\<close> ends the sequence.
\<close>

fun run_tests :: "(string \<times> string \<times> check) list \<Rightarrow> EkkoTestRunner \<Rightarrow> (exn + unit) \<times> EkkoTestRunner" where
  "run_tests [] r = (Inr (), r)"
| "run_tests ((tid, nm, f) # ts) r =
     (case run_test tid nm f r of
        (Inl e, r1) \<Rightarrow> (Inl e, r1)
      | (Inr u, r1) \<Rightarrow> run_tests ts r1)"

subsection \<open>The phases\<close>

text \<open>
  The twenty-two check bodies (lines 236-1516) exercise the target's domain and are not
  modelled: a run is parameterised by them, one \<open>check\<close> for each method.
\<close>

datatype test_method =
    test_authentication | test_hierarchical_permissions | test_cqrs_routing
  | test_organization_tree_queries | test_role_based_access_control | test_data_isolation
  | test_audit_logging | test_error_handling
  | test_production_infrastructure | test_performance_optimization
  | test_advanced_permission_management | test_materialized_view_refresh
  | test_create_user | test_create_organization_node | test_grant_permission
  | test_update_user | test_update_organization_structure | test_modify_permissions
  | test_activate_deactivate_users
  | test_delete_users | test_delete_organization_nodes | test_revoke_permissions

definition phase1 :: "(string \<times> string \<times> test_method) list" where
  "phase1 =
     [(''P1T1'', ''User Authentication'', test_authentication),
      (''P1T2'', ''Hierarchical Permissions'', test_hierarchical_permissions),
      (''P1T3'', ''CQRS Routing'', test_cqrs_routing),
      (''P1T4'', ''Organization Tree Queries'', test_organization_tree_queries),
      (''P1T5'', ''Role-Based Access Control'', test_role_based_access_control),
      (''P1T6'', ''Data Isolation'', test_data_isolation),
      (''P1T7'', ''Audit Logging'', test_audit_logging),
      (''P1T8'', ''Error Handling'', test_error_handling)]"

definition phase2 :: "(string \<times> string \<times> test_method) list" where
  "phase2 =
     [(''P2T1'', ''Production Infrastructure'', test_production_infrastructure),
      (''P2T2'', ''Performance Optimization'', test_performance_optimization),
      (''P2T3'', ''Advanced Permission Management'', test_advanced_permission_management),
      (''P2T4'', ''Materialized View Refresh'', test_materialized_view_refresh)]"

definition phase3 :: "(string \<times> string \<times> test_method) list" where
  "phase3 =
     [(''P3T1'', ''Create New User'', test_create_user),
      (''P3T2'', ''Create New Organization Node'', test_create_organization_node),
      (''P3T3'', ''Grant New Permission'', test_grant_permission),
      (''P3T4'', ''Update User Information'', test_update_user),
      (''P3T5'', ''Update Organization Structure'', test_update_organization_structure),
      (''P3T6'', ''Modify Existing Permissions'', test_modify_permissions),
      (''P3T7'', ''Activate/Deactivate Users'', test_activate_deactivate_users),
      (''P3T8'', ''Delete Users (Soft Delete)'', test_delete_users),
      (''P3T9'', ''Delete Organization Nodes'', test_delete_organization_nodes),
      (''P3T10'', ''Revoke Permissions'', test_revoke_permissions)]"

text \<open>The entries in the order in which \<open>run\<close> goes through them (lines 1643-1645).\<close>

definition schedule :: "(string \<times> string \<times> test_method) list" where
  "schedule = phase1 @ phase2 @ phase3"

definition bind_body :: "(test_method \<Rightarrow> check) \<Rightarrow> string \<times> string \<times> test_method \<Rightarrow> string \<times> string \<times> check" where
  "bind_body bodies t = (fst t, fst (snd t), bodies (snd (snd t)))"

definition run_phase1_tests :: "(test_method \<Rightarrow> check) \<Rightarrow> EkkoTestRunner \<Rightarrow> (exn + unit) \<times> EkkoTestRunner" where
  "run_phase1_tests bodies r = run_tests (map (bind_body bodies) phase1) r"

definition run_phase2_tests :: "(test_method \<Rightarrow> check) \<Rightarrow> EkkoTestRunner \<Rightarrow> (exn + unit) \<times> EkkoTestRunner" where
  "run_phase2_tests bodies r = run_tests (map (bind_body bodies) phase2) r"

definition run_phase3_tests :: "(test_method \<Rightarrow> check) \<Rightarrow> EkkoTestRunner \<Rightarrow> (exn + unit) \<times> EkkoTestRunner" where
  "run_phase3_tests bodies r = run_tests (map (bind_body bodies) phase3) r"

subsection \<open>\<open>check_deployment_access\<close>\<close>

definition check_deployment_access :: "EkkoTestRunner \<Rightarrow> (exn + bool) \<times> EkkoTestRunner" where
  "check_deployment_access r =
     (case session_request ''GET'' (base_url (session r) @ ''/login'') None None 10 (http_session r) of
        (Inr response, h') \<Rightarrow>
          (Inr (if status_code response \<in> {401, 403} then False
                else if status_code response \<noteq> 200 then False
                else True), r\<lparr>http_session := h'\<rparr>)
      | (Inl e, h') \<Rightarrow>
          if isinstance_Exception (cls e) then (Inr False, r\<lparr>http_session := h'\<rparr>)
          else (Inl e, r\<lparr>http_session := h'\<rparr>))"

subsection \<open>\<open>generate_report\<close>\<close>

definition count_status :: "string \<Rightarrow> TestResult list \<Rightarrow> nat" where
  "count_status s rs = length (filter (\<lambda>r. status r = s) rs)"

definition to_entry :: "TestResult \<Rightarrow> report_entry" where
  "to_entry r =
     \<lparr>entry_test_id = test_id r, entry_name = name r, entry_status = status r,
      entry_message = message r, duration_ms = duration r * 1000\<rparr>"

text \<open>
  Lines 1578-1622. \<open>passed / total_tests * 100\<close> is computed here over the reals; the
  rounding of Python's floating-point division and multiplication is not modelled.
\<close>

definition build_report :: "EkkoTestRunner \<Rightarrow> report" where
  "build_report r =
     (let rs = results (session r);
          total = length rs;
          n_passed = count_status ''PASS'' rs;
          n_failed = count_status ''FAIL'' rs;
          n_skipped = count_status ''SKIP'' rs;
          total_duration = clock r - start_time (session r);
          rate = (if total > 0 then real n_passed / real total * 100 else 0)
      in \<lparr>total_tests = total, passed = n_passed, failed = n_failed, skipped = n_skipped,
          success_rate = rate, total_duration_ms = total_duration * 1000,
          target_url = base_url (session r), timestamp = clock r,
          report_results = map to_entry rs\<rparr>)"

text \<open>
  Lines 1624-1629: the report is written, and the result is \<open>failed == 0\<close>. When the
  file cannot be opened the exception leaves \<open>generate_report\<close>.
\<close>

definition generate_report :: "EkkoTestRunner \<Rightarrow> (exn + bool) \<times> EkkoTestRunner" where
  "generate_report r =
     (let rep = build_report r in
      case open_error r of
        Some e \<Rightarrow> (Inl e, r)
      | None \<Rightarrow> (Inr (failed rep = 0), r\<lparr>report_file := Some rep\<rparr>))"

subsection \<open>\<open>run\<close> and \<open>main\<close>\<close>

definition run :: "(test_method \<Rightarrow> check) \<Rightarrow> EkkoTestRunner \<Rightarrow> (exn + bool) \<times> EkkoTestRunner" where
  "run bodies r =
     (case check_deployment_access r of
        (Inl e, r0) \<Rightarrow> (Inl e, r0)
      | (Inr accessible, r0) \<Rightarrow>
          (case run_phase1_tests bodies r0 of
             (Inl e, r1) \<Rightarrow> (Inl e, r1)
           | (Inr u1, r1) \<Rightarrow>
               (case run_phase2_tests bodies r1 of
                  (Inl e, r2) \<Rightarrow> (Inl e, r2)
                | (Inr u2, r2) \<Rightarrow>
                    (case run_phase3_tests bodies r2 of
                       (Inl e, r3) \<Rightarrow> (Inl e, r3)
                     | (Inr u3, r3) \<Rightarrow> generate_report r3))))"

text \<open>Line 1682: \<open>sys.exit(0 if success else 1)\<close>.\<close>

definition main_exit_code :: "bool \<Rightarrow> int" where
  "main_exit_code success = (if success then 0 else 1)"

section \<open>Assumptions on check bodies, and example sessions\<close>

text \<open>
  No check body of the source mentions \<open>session.results\<close>: the list is written by
  \<open>run_test\<close> alone (lines 215 and 226) and read by \<open>generate_report\<close>. A check that
  leaves the list as it found it:
\<close>

definition keeps_results :: "check \<Rightarrow> bool" where
  "keeps_results f \<longleftrightarrow> (\<forall>r. results (session (snd (f r))) = results (session r))"

text \<open>A check whose failures are all instances of \<open>Exception\<close>:\<close>

definition raises_only_Exception :: "check \<Rightarrow> bool" where
  "raises_only_Exception f \<longleftrightarrow> (\<forall>r e. fst (f r) = Inl e \<longrightarrow> isinstance_Exception (cls e))"

text \<open>An outcome that records a scheduled entry, with one of the two statuses \<open>run_test\<close> writes:\<close>

definition scheduled :: "string \<times> string \<times> 'a \<Rightarrow> TestResult \<Rightarrow> bool" where
  "scheduled t outcome \<longleftrightarrow>
     test_id outcome = fst t \<and> name outcome = fst (snd t) \<and> status outcome \<in> {''PASS'', ''FAIL''}"


text \<open>A fresh runner against a target that refuses every connection.\<close>

definition local_runner :: EkkoTestRunner where
  "local_runner =
     init ''http://localhost:3000'' False None (\<lambda>h. TransportFailed ''connection refused'') 0 None True"

text \<open>Check bodies that return, and that raise.\<close>

definition passing :: check where
  "passing r = (Inr (), r)"

definition raising :: "exc_class \<Rightarrow> string \<Rightarrow> check" where
  "raising c m r = (Inl (Exn c m), r)"

text \<open>The twenty-two bodies of a run in which only the third check fails.\<close>

definition one_failure :: "test_method \<Rightarrow> check" where
  "one_failure m =
     (if m = test_cqrs_routing
      then raising PlainException ''No users returned from read operation''
      else passing)"

text \<open>Ten checks, two of which fail (the scenario of section 8).\<close>

definition ten_checks :: "(string \<times> string \<times> check) list" where
  "ten_checks =
     [(''T1'', ''first'', passing), (''T2'', ''second'', passing),
      (''T3'', ''third'', raising PlainException ''boom''), (''T4'', ''fourth'', passing),
      (''T5'', ''fifth'', passing), (''T6'', ''sixth'', passing),
      (''T7'', ''seventh'', raising KeyError ''data''), (''T8'', ''eighth'', passing),
      (''T9'', ''ninth'', passing), (''T10'', ''tenth'', passing)]"

text \<open>
  What a check body, or several in a row, may ask of the client: a sequence of calls to
  \<open>authenticate_user\<close> and \<open>make_graphql_request\<close>, whose results and failures the caller
  handles as it likes.
\<close>

datatype client_call = Authenticate string | GraphQL string "json option" "json option"

fun perform :: "pylib \<Rightarrow> client_call list \<Rightarrow> EkkoTestRunner \<Rightarrow> EkkoTestRunner" where
  "perform L [] r = r"
| "perform L (Authenticate k # cs) r = perform L cs (snd (authenticate_user L k r))"
| "perform L (GraphQL q v t # cs) r = perform L cs (snd (make_graphql_request q v t r))"

text \<open>
  The outcomes of \<open>authenticate_user\<close> that its callers are written for: a token, or an
  \<open>Exception\<close> raised by \<open>authenticate_user\<close> or \<open>make_graphql_request\<close> themselves.
\<close>

fun token_or_auth_error :: "exn + json \<Rightarrow> bool" where
  "token_or_auth_error (Inr t) = True"
| "token_or_auth_error (Inl e) = (cls e = PlainException)"

text \<open>
  What holds of the accounts and the token cache in every state that client calls reach
  from a fresh runner.
\<close>

definition known_accounts :: "EkkoTestRunner \<Rightarrow> bool" where
  "known_accounts r \<longleftrightarrow>
     accounts (session r) = map_of fixed_accounts
   \<and> dom (tokens (session r)) \<subseteq> dom (map_of fixed_accounts)"

text \<open>Stand-ins for the library texts.\<close>

definition plain_lib :: pylib where
  "plain_lib =
     \<lparr>json_dumps = (\<lambda>v. ''[...]''),
      error_text = (\<lambda>e. case e of MissingKey k \<Rightarrow> k | _ \<Rightarrow> ''unsupported operand'')\<rparr>"

text \<open>Simulated endpoints, and fresh runners against them.\<close>

definition reply :: "nat \<Rightarrow> string \<Rightarrow> string \<Rightarrow> exn + json \<Rightarrow> attempt_result" where
  "reply code phrase body parsed =
     Responded \<lparr>status_code = code, reason = phrase, body_text = body, json_outcome = parsed\<rparr>"

definition not_json :: "exn + json" where
  "not_json = Inl (Exn JSONDecodeError ''Expecting value: line 1 column 1 (char 0)'')"

definition login_ok :: json where
  "login_ok = JObj [(''data'', JObj [(''login'', JObj [(''token'', JStr ''jwt-1'')])])]"

definition unavailable_twice :: "request list \<Rightarrow> attempt_result" where
  "unavailable_twice history =
     (if length history \<le> 2 then reply 503 ''Service Unavailable'' ''busy'' not_json
      else reply 200 ''OK'' ''{...}'' (Inr login_ok))"

definition always_404 :: "request list \<Rightarrow> attempt_result" where
  "always_404 history = reply 404 ''Not Found'' ''<html>not found</html>'' not_json"

definition always_401 :: "request list \<Rightarrow> attempt_result" where
  "always_401 history = reply 401 ''Unauthorized'' ''denied'' not_json"



definition granting :: "request list \<Rightarrow> attempt_result" where
  "granting history = reply 200 ''OK'' ''{...}'' (Inr login_ok)"

definition runner_against :: "(request list \<Rightarrow> attempt_result) \<Rightarrow> EkkoTestRunner" where
  "runner_against ep = init ''http://localhost:3000/'' False None ep 0 None True"

text \<open>A runner that already holds an outcome with status \<open>SKIP\<close>.\<close>

definition skipped_before :: EkkoTestRunner where
  "skipped_before =
     append_result \<lparr>test_id = ''P0T0'', name = ''Optional probe'', status = ''SKIP'',
                    message = ''not applicable'', duration = 0\<rparr> local_runner"

text \<open>
  The three checks of the end-to-end scenario of section 8: one completes, one raises
  with the message \<open>boom\<close>, one resolves the identity \<open>admin\<close> twice.
\<close>

definition auth_twice :: "pylib \<Rightarrow> check" where
  "auth_twice L r =
     (case authenticate_user L ''admin'' r of
        (Inl e, r1) \<Rightarrow> (Inl e, r1)
      | (Inr t1, r1) \<Rightarrow>
          (case authenticate_user L ''admin'' r1 of
             (Inl e, r2) \<Rightarrow> (Inl e, r2)
           | (Inr t2, r2) \<Rightarrow> (Inr (), r2)))"

definition three_checks :: "(string \<times> string \<times> check) list" where
  "three_checks =
     [(''E1'', ''completes'', passing),
      (''E2'', ''raises'', raising PlainException ''boom''),
      (''E3'', ''resolves admin twice'', auth_twice plain_lib)]"

section \<open>Properties of the runner\<close>

lemma results_append_result [simp]:
  "results (session (append_result x r)) = results (session r) @ [x]"
  by (simp add: append_result_def)

lemma keeps_results_passing [simp]: "keeps_results passing"
  by (simp add: keeps_results_def passing_def)

lemma keeps_results_raising [simp]: "keeps_results (raising c m)"
  by (simp add: keeps_results_def raising_def)

lemma raises_only_Exception_passing [simp]: "raises_only_Exception passing"
  by (simp add: raises_only_Exception_def passing_def)

lemma raises_only_Exception_raising [simp]:
  "raises_only_Exception (raising c m) = isinstance_Exception c"
  by (simp add: raises_only_Exception_def raising_def)

lemma results_local_runner [simp]: "results (session local_runner) = []"
  by (simp add: local_runner_def init_def)

subsection \<open>Sequences of tests and whole runs\<close>

lemma run_test_cases:
  assumes "keeps_results f" and "run_test tid nm f r = (res, r')"
  shows "(\<exists>e. res = Inl e \<and> \<not> isinstance_Exception (cls e) \<and> results (session r') = results (session r))
       \<or> (res = Inr () \<and> (\<exists>outcome. results (session r') = results (session r) @ [outcome]
                                  \<and> scheduled (tid, nm, f) outcome))"
proof -
  obtain out r1 where f: "f r = (out, r1)" by (cases "f r")
  from assms(1) f have keep: "results (session r1) = results (session r)"
    unfolding keeps_results_def by (metis snd_conv)
  show ?thesis
  proof (cases out)
    case (Inr v)
    with f assms(2) keep show ?thesis
      by (auto simp: run_test_def scheduled_def)
  next
    case (Inl e)
    with f assms(2) keep show ?thesis
      by (cases "isinstance_Exception (cls e)") (auto simp: run_test_def scheduled_def)
  qed
qed

lemma run_tests_results:
  assumes "\<forall>t \<in> set ts. keeps_results (snd (snd t))" and "run_tests ts r = (res, r')"
  shows "\<exists>new. results (session r') = results (session r) @ new
             \<and> list_all2 scheduled (take (length new) ts) new
             \<and> length new \<le> length ts
             \<and> (\<forall>u. res = Inr u \<longrightarrow> length new = length ts)"
  using assms
proof (induction ts arbitrary: r)
  case Nil
  then show ?case by auto
next
  case (Cons t ts)
  obtain tid nm f where t: "t = (tid, nm, f)" by (cases t)
  obtain res1 r1 where one: "run_test tid nm f r = (res1, r1)" by (cases "run_test tid nm f r")
  from Cons.prems(1) t have kf: "keeps_results f" by simp
  from run_test_cases [OF kf one] show ?case
  proof
    assume "\<exists>e. res1 = Inl e \<and> \<not> isinstance_Exception (cls e) \<and> results (session r1) = results (session r)"
    then obtain e where e: "res1 = Inl e" and same: "results (session r1) = results (session r)" by blast
    from Cons.prems(2) t one e have "r' = r1" "res = Inl e" by auto
    with same show ?case by (intro exI [of _ "[]"]) simp
  next
    assume "res1 = Inr () \<and> (\<exists>outcome. results (session r1) = results (session r) @ [outcome]
                                  \<and> scheduled (tid, nm, f) outcome)"
    then obtain outcome where ok: "res1 = Inr ()"
      and o: "results (session r1) = results (session r) @ [outcome]" "scheduled (tid, nm, f) outcome"
      by blast
    from Cons.prems(2) t one ok have rest: "run_tests ts r1 = (res, r')" by simp
    from Cons.IH [OF _ rest] Cons.prems(1)
    obtain new where n: "results (session r') = results (session r1) @ new"
        "list_all2 scheduled (take (length new) ts) new" "length new \<le> length ts"
        "\<forall>u. res = Inr u \<longrightarrow> length new = length ts"
      by auto
    from o n t show ?case
      by (intro exI [of _ "outcome # new"]) simp
  qed
qed


lemma scheduled_statuses:
  "list_all2 scheduled ts new \<Longrightarrow> \<forall>r \<in> set new. status r = ''PASS'' \<or> status r = ''FAIL''"
  by (induction rule: list_all2_induct) (auto simp: scheduled_def)


lemma run_tests_append:
  "run_tests (xs @ ys) r =
     (case run_tests xs r of (Inl e, r1) \<Rightarrow> (Inl e, r1) | (Inr u, r1) \<Rightarrow> run_tests ys r1)"
  by (induction xs arbitrary: r) (auto split: prod.splits sum.splits)

lemma adapter_send_raises:
  "adapter_send n q h = (Inl e, h') \<Longrightarrow> cls e = RequestException"
  by (induction n arbitrary: h) (auto split: prod.splits attempt_result.splits if_splits)

lemma check_deployment_access_returns:
  "\<exists>accessible r0. check_deployment_access r = (Inr accessible, r0) \<and> session r0 = session r"
proof -
  obtain res h' where s: "session_request ''GET'' (base_url (session r) @ ''/login'') None None 10 (http_session r) = (res, h')"
    by (cases "session_request ''GET'' (base_url (session r) @ ''/login'') None None 10 (http_session r)")
  show ?thesis
  proof (cases res)
    case (Inl e)
    with s have "cls e = RequestException"
      by (auto simp: session_request_def dest: adapter_send_raises)
    with s Inl show ?thesis by (auto simp: check_deployment_access_def)
  next
    case (Inr resp)
    with s show ?thesis by (auto simp: check_deployment_access_def)
  qed
qed

lemma run_unfold:
  "run bodies r =
     (case check_deployment_access r of
        (Inl e, r0) \<Rightarrow> (Inl e, r0)
      | (Inr accessible, r0) \<Rightarrow>
          (case run_tests (map (bind_body bodies) schedule) r0 of
             (Inl e, r1) \<Rightarrow> (Inl e, r1)
           | (Inr u, r1) \<Rightarrow> generate_report r1))"
  by (simp add: run_def run_phase1_tests_def run_phase2_tests_def run_phase3_tests_def
        schedule_def run_tests_append split: prod.splits sum.splits)

lemma generate_report_cases:
  "generate_report r = (res, r') \<Longrightarrow>
     session r' = session r
   \<and> ((\<exists>e. res = Inl e \<and> open_error r = Some e \<and> r' = r)
      \<or> (res = Inr (count_status ''FAIL'' (results (session r)) = 0) \<and> open_error r = None
          \<and> r' = r\<lparr>report_file := Some (build_report r)\<rparr>))"
  by (auto simp: generate_report_def build_report_def Let_def split: option.splits)

lemma results_init [simp]: "results (session (init u p b ep now oerr ros)) = []"
  by (simp add: init_def)

lemma bind_body_ids [simp]:
  "map (\<lambda>t. (fst t, fst (snd t))) (map (bind_body bodies) ts) = map (\<lambda>t. (fst t, fst (snd t))) ts"
  by (simp add: bind_body_def)

lemma entry_ids [simp]:
  "map (\<lambda>e. (entry_test_id e, entry_name e)) (map to_entry rs) = map (\<lambda>r. (test_id r, name r)) rs"
  by (simp add: to_entry_def)

lemma report_results_build [simp]:
  "report_results (build_report r) = map to_entry (results (session r))"
  by (simp add: build_report_def Let_def)

lemma run_results:
  assumes frame: "\<forall>m. keeps_results (bodies m)"
      and run: "run bodies r = (res, r')"
  shows "\<exists>new. results (session r') = results (session r) @ new
             \<and> list_all2 scheduled (take (length new) (map (bind_body bodies) schedule)) new
             \<and> (\<forall>ok. res = Inr ok \<longrightarrow> length new = length schedule
                     \<and> report_file r' = Some (build_report r')
                     \<and> ok = (count_status ''FAIL'' (results (session r')) = 0))"
proof -
  obtain accessible r0 where acc: "check_deployment_access r = (Inr accessible, r0)"
    and s0: "session r0 = session r"
    using check_deployment_access_returns by blast
  obtain res1 r1 where ts: "run_tests (map (bind_body bodies) schedule) r0 = (res1, r1)"
    by (cases "run_tests (map (bind_body bodies) schedule) r0")
  have "\<forall>t \<in> set (map (bind_body bodies) schedule). keeps_results (snd (snd t))"
    using frame by (simp add: bind_body_def)
  from run_tests_results [OF this ts] s0
  obtain new where new: "results (session r1) = results (session r) @ new"
      "list_all2 scheduled (take (length new) (map (bind_body bodies) schedule)) new"
      "\<forall>u. res1 = Inr u \<longrightarrow> length new = length (map (bind_body bodies) schedule)"
    by auto
  show ?thesis
  proof (cases res1)
    case (Inl e)
    with run acc ts have "r' = r1" "res = Inl e" by (simp_all add: run_unfold)
    with new show ?thesis by auto
  next
    case (Inr u)
    with run acc ts have gen: "generate_report r1 = (res, r')" by (simp add: run_unfold)
    from generate_report_cases [OF gen] have sess: "session r' = session r1"
      and cases: "(\<exists>e. res = Inl e) \<or>
         (res = Inr (count_status ''FAIL'' (results (session r1)) = 0)
          \<and> r' = r1\<lparr>report_file := Some (build_report r1)\<rparr>)"
      by auto
    have same: "build_report (r1\<lparr>report_file := x\<rparr>) = build_report r1" for x
      by (simp add: build_report_def)
    from cases sess new Inr same show ?thesis
      by (intro exI [of _ new]) auto
  qed
qed


lemma count_status_two:
  assumes "\<forall>r \<in> set rs. status r = ''PASS'' \<or> status r = ''FAIL''"
  shows "count_status ''PASS'' rs + count_status ''FAIL'' rs = length rs \<and> count_status ''SKIP'' rs = 0"
  using assms by (induction rs) (auto simp: count_status_def)

subsection \<open>The runner boundary\<close>







subsection \<open>Runs and reports\<close>

lemma keeps_one_failure [simp]: "keeps_results (one_failure m)"
  by (simp add: one_failure_def)

lemma only_one_failure [simp]: "raises_only_Exception (one_failure m)"
  by (simp add: one_failure_def)

lemma retry_total_Suc: "retry_total = Suc (Suc (Suc 0))"
  by (simp add: retry_total_def)

lemmas run_eval = run_def run_phase1_tests_def run_phase2_tests_def run_phase3_tests_def
  phase1_def phase2_def phase3_def bind_body_def run_test_def check_deployment_access_def
  session_request_def retry_total_Suc attempt_def is_retry_def local_runner_def init_def
  generate_report_def build_report_def count_status_def one_failure_def passing_def raising_def
  append_result_def



text \<open>
  C9. In a run on a fresh runner, every outcome in the results has status \<open>PASS\<close> or
  \<open>FAIL\<close>, also when the run is cut short, and the \<open>skipped\<close> count of the report is 0.
\<close>

theorem run_never_skips:
  assumes "\<forall>m. keeps_results (bodies m)"
  shows "(\<forall>outcome \<in> set (results (session (snd (run bodies (init u p b ep now oerr ros))))).
            status outcome = ''PASS'' \<or> status outcome = ''FAIL'')
       \<and> (\<forall>ok r'. run bodies (init u p b ep now oerr ros) = (Inr ok, r') \<longrightarrow>
            (\<exists>rep. report_file r' = Some rep \<and> skipped rep = 0))"
proof -
  obtain res r' where run: "run bodies (init u p b ep now oerr ros) = (res, r')"
    by (cases "run bodies (init u p b ep now oerr ros)")
  from run_results [OF assms run]
  obtain new where new: "results (session r') = new"
      "list_all2 scheduled (take (length new) (map (bind_body bodies) schedule)) new"
      "\<forall>ok. res = Inr ok \<longrightarrow> report_file r' = Some (build_report r')"
    by auto
  from scheduled_statuses [OF new(2)] new(1)
  have st: "\<forall>outcome \<in> set (results (session r')). status outcome = ''PASS'' \<or> status outcome = ''FAIL''"
    by simp
  from count_status_two [OF st] have "skipped (build_report r') = 0"
    by (simp add: build_report_def Let_def)
  with st new(3) run show ?thesis by auto
qed

theorem run_never_skips_witness:
  "(\<forall>m. keeps_results (one_failure m))
   \<and> list_all (\<lambda>outcome. status outcome = ''PASS'' \<or> status outcome = ''FAIL'')
        (results (session (snd (run one_failure local_runner))))
   \<and> map status (results (session (snd (run_tests ten_checks local_runner))))
       = [''PASS'', ''PASS'', ''FAIL'', ''PASS'', ''PASS'', ''PASS'', ''FAIL'', ''PASS'', ''PASS'', ''PASS'']"
  using run_never_skips [of one_failure "''http://localhost:3000''" False None
          "\<lambda>h. TransportFailed ''connection refused''" 0 None True]
  by (simp add: local_runner_def list_all_iff ten_checks_def run_test_def passing_def raising_def init_def append_result_def)

text \<open>
  C6. When \<open>run\<close> returns, its boolean is true exactly when no outcome has status
  \<open>FAIL\<close>; outcomes with any other status, \<open>SKIP\<close> included, do not count. The exit
  code that \<open>main\<close> derives from it is 0 in that case and 1 otherwise.
\<close>

theorem run_success_iff_no_failure:
  assumes "run bodies r = (Inr ok, r')"
  shows "ok = (count_status ''FAIL'' (results (session r')) = 0)
       \<and> (main_exit_code ok = 0 \<longleftrightarrow> count_status ''FAIL'' (results (session r')) = 0)
       \<and> (\<exists>rep. report_file r' = Some rep \<and> failed rep = count_status ''FAIL'' (results (session r')))"
proof -
  from assms obtain r1 where gen: "generate_report r1 = (Inr ok, r')"
    by (auto simp: run_unfold split: prod.splits sum.splits)
  from generate_report_cases [OF gen]
  have "session r' = session r1" "ok = (count_status ''FAIL'' (results (session r1)) = 0)"
       "r' = r1\<lparr>report_file := Some (build_report r1)\<rparr>"
    by auto
  then show ?thesis
    by (auto simp: main_exit_code_def build_report_def Let_def)
qed

theorem run_success_iff_no_failure_witness:
  "fst (run one_failure local_runner) = Inr False
   \<and> count_status ''FAIL'' (results (session (snd (run one_failure local_runner)))) = 1
   \<and> main_exit_code False = 1
   \<and> fst (run (\<lambda>m. passing) skipped_before) = Inr True
   \<and> count_status ''SKIP'' (results (session (snd (run (\<lambda>m. passing) skipped_before)))) = 1
   \<and> main_exit_code True = 0"
proof -
  have ev: "fst (run one_failure local_runner) = Inr False
          \<and> count_status ''FAIL'' (results (session (snd (run one_failure local_runner)))) = 1"
    by (simp add: run_eval)
  then have "run one_failure local_runner = (Inr False, snd (run one_failure local_runner))"
    by (metis prod.collapse)
  note failing = run_success_iff_no_failure [OF this]
  have ev': "fst (run (\<lambda>m. passing) skipped_before) = Inr True
          \<and> count_status ''SKIP'' (results (session (snd (run (\<lambda>m. passing) skipped_before)))) = 1"
    by (simp add: run_eval skipped_before_def)
  then have "run (\<lambda>m. passing) skipped_before = (Inr True, snd (run (\<lambda>m. passing) skipped_before))"
    by (metis prod.collapse)
  note skipping = run_success_iff_no_failure [OF this]
  from failing skipping ev ev' show ?thesis
    by (simp add: main_exit_code_def)
qed

text \<open>
  C7. A sequence of checks run on a runner with no results yet, followed by
  \<open>generate_report\<close> (by \<open>run_unfold\<close>, \<open>run\<close> is such a sequence). In the report
  written, \<open>total_tests\<close> is the number of scheduled checks, passed, failed and skipped
  add up to it, and \<open>success_rate\<close> is \<open>passed / total_tests * 100\<close>, or 0 when there
  are no tests. The division is taken over the reals. The witness is the scenario of
  ten checks of which two fail, and the run of no checks at all.
\<close>

theorem report_summary:
  assumes "\<forall>t \<in> set sched. keeps_results (snd (snd t))"
      and "results (session r) = []"
      and "run_tests sched r = (Inr u, r1)"
      and "generate_report r1 = (Inr ok, r2)"
  shows "\<exists>rep. report_file r2 = Some rep
             \<and> total_tests rep = length sched
             \<and> passed rep + failed rep + skipped rep = total_tests rep
             \<and> success_rate rep =
                 (if total_tests rep = 0 then 0 else real (passed rep) / real (total_tests rep) * 100)"
proof -
  from run_tests_results [OF assms(1,3)] assms(2)
  obtain new where new: "results (session r1) = new"
      "list_all2 scheduled (take (length new) sched) new" "length new = length sched"
    by auto
  from scheduled_statuses [OF new(2)] new(1)
  have "\<forall>outcome \<in> set (results (session r1)). status outcome = ''PASS'' \<or> status outcome = ''FAIL''"
    by simp
  from count_status_two [OF this]
  have counts: "count_status ''PASS'' (results (session r1)) + count_status ''FAIL'' (results (session r1))
                  = length (results (session r1))"
      "count_status ''SKIP'' (results (session r1)) = 0"
    by simp_all
  from generate_report_cases [OF assms(4)]
  have "report_file r2 = Some (build_report r1)" by auto
  moreover have "length (results (session r1)) = 0 \<Longrightarrow> count_status ''PASS'' (results (session r1)) = 0"
    by (simp add: count_status_def)
  ultimately show ?thesis using counts new(1,3)
    by (auto simp: build_report_def Let_def)
qed

theorem report_summary_witness:
  "list_all (\<lambda>t. keeps_results (snd (snd t))) ten_checks
   \<and> results (session local_runner) = []
   \<and> fst (run_tests ten_checks local_runner) = Inr ()
   \<and> fst (generate_report (snd (run_tests ten_checks local_runner))) = Inr False
   \<and> (\<exists>rep. report_file (snd (generate_report (snd (run_tests ten_checks local_runner)))) = Some rep
          \<and> total_tests rep = 10 \<and> passed rep = 8 \<and> failed rep = 2 \<and> skipped rep = 0
          \<and> passed rep + failed rep + skipped rep = total_tests rep
          \<and> success_rate rep = 80)
   \<and> (\<exists>rep. report_file (snd (generate_report local_runner)) = Some rep
          \<and> total_tests rep = 0 \<and> success_rate rep = 0)"
proof -
  have r0: "run_tests [] local_runner = (Inr (), local_runner)"
    by simp
  have g0: "generate_report local_runner = (Inr True, snd (generate_report local_runner))"
    by (simp add: generate_report_def build_report_def count_status_def local_runner_def init_def)
  from report_summary [OF _ results_local_runner r0 g0]
  have none: "\<exists>rep. report_file (snd (generate_report local_runner)) = Some rep
          \<and> total_tests rep = 0 \<and> success_rate rep = 0"
    by auto
  have k: "\<forall>t \<in> set ten_checks. keeps_results (snd (snd t))"
    by (simp add: ten_checks_def)
  have r: "run_tests ten_checks local_runner = (Inr (), snd (run_tests ten_checks local_runner))"
    by (simp add: ten_checks_def run_test_def passing_def raising_def)
  have g: "generate_report (snd (run_tests ten_checks local_runner))
             = (Inr False, snd (generate_report (snd (run_tests ten_checks local_runner))))"
    by (simp add: ten_checks_def run_test_def passing_def raising_def generate_report_def
          build_report_def count_status_def local_runner_def init_def append_result_def)
  from report_summary [OF k results_local_runner r g]
  obtain rep where rep: "report_file (snd (generate_report (snd (run_tests ten_checks local_runner)))) = Some rep"
      "total_tests rep = length ten_checks"
      "passed rep + failed rep + skipped rep = total_tests rep"
      "success_rate rep = (if total_tests rep = 0 then 0 else real (passed rep) / real (total_tests rep) * 100)"
    by blast
  have f: "failed (build_report (snd (run_tests ten_checks local_runner))) = 2"
          "skipped (build_report (snd (run_tests ten_checks local_runner))) = 0"
    by (simp_all add: ten_checks_def run_test_def passing_def raising_def
          build_report_def count_status_def local_runner_def init_def append_result_def)
  have "rep = build_report (snd (run_tests ten_checks local_runner))"
    using rep(1) by (simp add: generate_report_def Let_def local_runner_def init_def
          ten_checks_def run_test_def passing_def raising_def append_result_def)
  with f have "failed rep = 2" "skipped rep = 0" by simp_all
  with rep have "total_tests rep = 10" "passed rep = 8"
    by (simp_all add: ten_checks_def)
  moreover from r have "fst (run_tests ten_checks local_runner) = Inr ()"
    by (metis fst_conv)
  moreover from g have "fst (generate_report (snd (run_tests ten_checks local_runner))) = Inr False"
    by (metis fst_conv)
  ultimately show ?thesis
    using rep \<open>failed rep = 2\<close> \<open>skipped rep = 0\<close> k none
    by (simp add: list_all_iff)
qed

subsection \<open>The request client\<close>

lemmas client_eval = make_graphql_request_def session_request_def retry_total_Suc
  attempt_def is_retry_def allowed_methods_def status_forcelist_def graphql_try_def graphql_except_def
  runner_against_def init_def reply_def not_json_def str_nat.simps digit_char_def rstrip_slash_def


text \<open>
  C5. Against an endpoint that answers 503 twice and then 200, the request returns the
  parsed body of the 200 response and exactly three attempts have gone on the wire.
  Against an endpoint that always answers 404, it fails with the status in its message
  after exactly one attempt. The retry loop is the one modelled in \<open>adapter_send\<close>, with
  the configuration of \<open>__init__\<close>.
\<close>

theorem retry_policy:
  "fst (make_graphql_request q v t (runner_against unavailable_twice)) = Inr login_ok
   \<and> length (wire (http_session (snd (make_graphql_request q v t (runner_against unavailable_twice))))) = 3
   \<and> fst (make_graphql_request q v t (runner_against always_404))
       = Inl (Exn PlainException ''GraphQL request failed: 404 Not Found'')
   \<and> length (wire (http_session (snd (make_graphql_request q v t (runner_against always_404))))) = 1"
  by (simp add: client_eval unavailable_twice_def always_404_def)




subsection \<open>The credential cache\<close>

lemma session_make_graphql_request [simp]:
  "session (snd (make_graphql_request q v t r)) = session r"
  by (simp add: make_graphql_request_def split: prod.splits sum.splits)

lemma authenticate_user_cached:
  "tokens (session r) k = Some t \<Longrightarrow> authenticate_user L k r = (Inr t, r)"
  by (simp add: authenticate_user_def)

lemma authenticate_user_stores:
  assumes "authenticate_user L k r = (Inr t, r1)"
  shows "tokens (session r1) k = Some t"
proof (cases "tokens (session r) k")
  case (Some c)
  with assms show ?thesis by (simp add: authenticate_user_def)
next
  case None
  with assms show ?thesis
    by (auto simp: authenticate_user_def store_token_def split: option.splits prod.splits sum.splits)
qed

lemma authenticate_user_session:
  "session (snd (authenticate_user L k r)) = session r
   \<or> (\<exists>t. tokens (session r) k = None \<and> accounts (session r) k \<noteq> None
          \<and> session (snd (authenticate_user L k r)) = (session r)\<lparr>tokens := (tokens (session r))(k \<mapsto> t)\<rparr>)"
proof (cases "tokens (session r) k")
  case (Some c)
  then show ?thesis by (simp add: authenticate_user_def)
next
  case None
  show ?thesis
  proof (cases "accounts (session r) k")
    case no: None
    with None show ?thesis by (simp add: authenticate_user_def)
  next
    case (Some account)
    obtain res r1 where m: "make_graphql_request login_mutation (Some (login_variables account)) None r = (res, r1)"
      by (cases "make_graphql_request login_mutation (Some (login_variables account)) None r")
    then have s: "session r1 = session r"
      by (metis session_make_graphql_request snd_conv)
    from None Some m s show ?thesis
      by (auto simp: authenticate_user_def store_token_def split: sum.splits)
  qed
qed

lemma authenticate_user_keeps_token:
  assumes "tokens (session r) k = Some t"
  shows "tokens (session (snd (authenticate_user L k' r))) k = Some t"
  using authenticate_user_session [of L k' r] assms by auto

lemma perform_keeps_token:
  "tokens (session r) k = Some t \<Longrightarrow> tokens (session (perform L cs r)) k = Some t"
proof (induction cs arbitrary: r)
  case Nil
  then show ?case by simp
next
  case (Cons c cs)
  then show ?case
    by (cases c) (simp_all add: authenticate_user_keeps_token)
qed

lemma known_accounts_authenticate_user:
  assumes "known_accounts r"
  shows "known_accounts (snd (authenticate_user L k r))"
  using authenticate_user_session [of L k r]
proof
  assume "session (snd (authenticate_user L k r)) = session r"
  with assms show ?thesis by (simp add: known_accounts_def)
next
  assume "\<exists>t. tokens (session r) k = None \<and> accounts (session r) k \<noteq> None
          \<and> session (snd (authenticate_user L k r)) = (session r)\<lparr>tokens := (tokens (session r))(k \<mapsto> t)\<rparr>"
  then obtain t where known: "accounts (session r) k \<noteq> None"
    and upd: "session (snd (authenticate_user L k r)) = (session r)\<lparr>tokens := (tokens (session r))(k \<mapsto> t)\<rparr>"
    by blast
  from known assms have "k \<in> dom (map_of fixed_accounts)"
    by (auto simp: known_accounts_def)
  with assms upd show ?thesis
    by (simp add: known_accounts_def)
qed

lemma known_accounts_perform:
  "known_accounts r \<Longrightarrow> known_accounts (perform L cs r)"
proof (induction cs arbitrary: r)
  case Nil
  then show ?case by simp
next
  case (Cons c cs)
  show ?case
  proof (cases c)
    case (Authenticate k)
    with Cons show ?thesis by (simp add: known_accounts_authenticate_user)
  next
    case (GraphQL q v t)
    from Cons.prems have "known_accounts (snd (make_graphql_request q v t r))"
      by (simp add: known_accounts_def)
    with Cons.IH GraphQL show ?thesis by simp
  qed
qed

lemma known_accounts_init: "known_accounts (init u p b ep now oerr ros)"
  by (simp add: known_accounts_def init_def)

lemmas auth_eval = authenticate_user_def token_of_response_def store_token_def login_ok_def
  fixed_accounts_def plain_lib_def login_variables_def graphql_payload_def bearer_def

text \<open>
  C2, as the code has it. Once \<open>authenticate_user\<close> has returned a token for a key, every
  later call for that key, after any further client calls, returns the same token and
  leaves the runner as it is: nothing goes on the wire. So at most one exchange per key
  succeeds.
\<close>

theorem authenticate_user_caches:
  assumes "authenticate_user L k r = (Inr t, r1)"
  shows "authenticate_user L k (perform L cs r1) = (Inr t, perform L cs r1)
       \<and> wire (http_session (snd (authenticate_user L k (perform L cs r1))))
           = wire (http_session (perform L cs r1))"
proof -
  from authenticate_user_stores [OF assms] have "tokens (session r1) k = Some t" .
  then have "tokens (session (perform L cs r1)) k = Some t" by (rule perform_keeps_token)
  then show ?thesis by (simp add: authenticate_user_cached)
qed

theorem authenticate_user_caches_witness:
  "fst (authenticate_user plain_lib ''admin'' (runner_against granting)) = Inr (JStr ''jwt-1'')
   \<and> fst (authenticate_user plain_lib ''admin''
            (perform plain_lib [Authenticate ''admin'', Authenticate ''camden_staff'']
               (runner_against granting))) = Inr (JStr ''jwt-1'')
   \<and> length (wire (http_session (perform plain_lib
        [Authenticate ''admin'', Authenticate ''camden_staff'', Authenticate ''admin'']
        (runner_against granting)))) = 2"
proof -
  have first: "fst (authenticate_user plain_lib ''admin'' (runner_against granting)) = Inr (JStr ''jwt-1'')"
    by (simp add: auth_eval client_eval granting_def)
  then have "authenticate_user plain_lib ''admin'' (runner_against granting)
               = (Inr (JStr ''jwt-1''), snd (authenticate_user plain_lib ''admin'' (runner_against granting)))"
    by (metis prod.collapse)
  from authenticate_user_caches [OF this, of "[Authenticate ''camden_staff'']"]
  have again: "authenticate_user plain_lib ''admin''
            (perform plain_lib [Authenticate ''admin'', Authenticate ''camden_staff''] (runner_against granting))
          = (Inr (JStr ''jwt-1''),
             perform plain_lib [Authenticate ''admin'', Authenticate ''camden_staff''] (runner_against granting))"
    by simp
  have two: "length (wire (http_session (perform plain_lib
        [Authenticate ''admin'', Authenticate ''camden_staff''] (runner_against granting)))) = 2"
    by (simp add: auth_eval client_eval granting_def)
  from first again two show ?thesis by simp
qed

text \<open>
  C2 as stated fails: a failed exchange caches nothing. Against a target that rejects the
  login, two calls for \<open>admin\<close> put two login requests for \<open>admin\<close> on the wire.
\<close>

theorem authenticate_user_once_counterexample:
  "fst (authenticate_user plain_lib ''admin'' (runner_against always_401))
     = Inl (Exn PlainException ''GraphQL request failed: 401 Unauthorized'')
   \<and> fst (authenticate_user plain_lib ''admin''
            (perform plain_lib [Authenticate ''admin''] (runner_against always_401)))
     = Inl (Exn PlainException ''GraphQL request failed: 401 Unauthorized'')
   \<and> map payload (wire (http_session
        (perform plain_lib [Authenticate ''admin'', Authenticate ''admin''] (runner_against always_401))))
     = [Some (graphql_payload login_mutation
               (Some (login_variables \<lparr>email = ''admin@ekko.earth'', password = ''Password123!''\<rparr>))),
        Some (graphql_payload login_mutation
               (Some (login_variables \<lparr>email = ''admin@ekko.earth'', password = ''Password123!''\<rparr>)))]"
  by (simp add: authenticate_user_def token_of_response_def store_token_def
        fixed_accounts_def plain_lib_def client_eval always_401_def)

text \<open>
  C10. A key that is neither cached nor in the accounts makes \<open>authenticate_user\<close> raise
  \<open>KeyError\<close> from the accounts lookup, before any request is sent and with the runner
  unchanged. Conversely, when the call returns a token or raises one of the
  \<open>Exception\<close>s written for authentication failures, the key was cached or in the
  accounts. In every state that client calls reach from a fresh runner, the keys that are
  not among the six fixed identities raise \<open>KeyError\<close>.
\<close>

theorem authenticate_user_unknown_key:
  "(tokens (session r) k = None \<and> accounts (session r) k = None \<longrightarrow>
      authenticate_user L k r = (Inl (Exn KeyError (error_text L (MissingKey k))), r))
   \<and> (token_or_auth_error (fst (authenticate_user L k r)) \<longrightarrow>
        k \<in> dom (tokens (session r)) \<union> dom (accounts (session r)))
   \<and> (k \<notin> set (map fst fixed_accounts) \<longrightarrow>
        authenticate_user L k (perform L cs (init u p b ep now oerr ros))
          = (Inl (Exn KeyError (error_text L (MissingKey k))), perform L cs (init u p b ep now oerr ros)))"
proof (intro conjI impI)
  assume "tokens (session r) k = None \<and> accounts (session r) k = None"
  then show "authenticate_user L k r = (Inl (Exn KeyError (error_text L (MissingKey k))), r)"
    by (simp add: authenticate_user_def)
next
  assume ok: "token_or_auth_error (fst (authenticate_user L k r))"
  show "k \<in> dom (tokens (session r)) \<union> dom (accounts (session r))"
  proof (rule ccontr)
    assume "k \<notin> dom (tokens (session r)) \<union> dom (accounts (session r))"
    then have "tokens (session r) k = None" "accounts (session r) k = None"
      by (simp_all add: dom_def)
    then have "authenticate_user L k r = (Inl (Exn KeyError (error_text L (MissingKey k))), r)"
      by (simp add: authenticate_user_def)
    with ok show False by simp
  qed
next
  assume out: "k \<notin> set (map fst fixed_accounts)"
  let ?r = "perform L cs (init u p b ep now oerr ros)"
  have inv: "known_accounts ?r"
    by (rule known_accounts_perform) (rule known_accounts_init)
  from out have "map_of fixed_accounts k = None"
    by (simp add: map_of_eq_None_iff)
  with inv have "accounts (session ?r) k = None" "tokens (session ?r) k = None"
    by (auto simp: known_accounts_def)
  then show "authenticate_user L k ?r = (Inl (Exn KeyError (error_text L (MissingKey k))), ?r)"
    by (simp add: authenticate_user_def)
qed

theorem authenticate_user_unknown_key_witness:
  "tokens (session local_runner) ''root'' = None
   \<and> accounts (session local_runner) ''root'' = None
   \<and> authenticate_user plain_lib ''root'' local_runner = (Inl (Exn KeyError ''root''), local_runner)
   \<and> \<not> token_or_auth_error (Inl (Exn KeyError ''root''))"
  using authenticate_user_unknown_key [of local_runner "''root''" plain_lib]
  by (simp add: local_runner_def init_def fixed_accounts_def plain_lib_def)

text \<open>
  The end-to-end scenario: the outcomes are \<open>PASS\<close>, \<open>FAIL\<close> with the message
  \<open>boom\<close>, \<open>PASS\<close>, in that order, and one login request has gone on the wire.
\<close>

lemma end_to_end_scenario:
  "fst (run_tests three_checks (runner_against granting)) = Inr ()
   \<and> map (\<lambda>r. (status r, message r)) (results (session (snd (run_tests three_checks (runner_against granting)))))
       = [(''PASS'', ''Test completed successfully''), (''FAIL'', ''boom''),
          (''PASS'', ''Test completed successfully'')]
   \<and> length (wire (http_session (snd (run_tests three_checks (runner_against granting))))) = 1"
  by (simp add: three_checks_def auth_twice_def run_test_def passing_def raising_def
        auth_eval client_eval granting_def append_result_def)

end
